theory Spec2Isabelle
  imports Main "HOL-Library.Sublist"
begin

section \<open>Python values and the primitives the handler uses\<close>

text \<open>
  The webhook of \<^verbatim>\<open>app.py\<close> works on dynamically typed data: the parsed JSON body
  of the request and the parsed JSON answer of the payment gateway. A value is one of
  Python's \<^verbatim>\<open>None\<close>, \<^verbatim>\<open>bool\<close>, \<^verbatim>\<open>int\<close>, \<^verbatim>\<open>str\<close>,
  \<^verbatim>\<open>list\<close> and \<^verbatim>\<open>dict\<close> (JSON object keys are strings; a dictionary is an
  association list in insertion order, with distinct keys after parsing). Non-integer
  JSON numbers are outside the model. A \<^typ>\<open>string\<close> is read as a sequence of code
  points below 256.
\<close>

datatype pyval =
    PyNone
  | PyBool bool
  | PyInt int
  | PyStr string
  | PyList "pyval list"
  | PyDict "(string \<times> pyval) list"

text \<open>The exceptions that can leave one of the modelled operations.\<close>

datatype exn =
    TypeError
  | KeyError
  | AttributeError
  | OverflowError
  | InterfaceError
  | IntegrityError
  | OperationalError
  | OSError

text \<open>Truth value testing (\<^verbatim>\<open>if x\<close>, \<^verbatim>\<open>not x\<close>, \<^verbatim>\<open>x or y\<close>).\<close>

fun truthy :: "pyval \<Rightarrow> bool" where
  "truthy PyNone = False"
| "truthy (PyBool b) = b"
| "truthy (PyInt i) = (i \<noteq> 0)"
| "truthy (PyStr s) = (s \<noteq> [])"
| "truthy (PyList xs) = (xs \<noteq> [])"
| "truthy (PyDict kvs) = (kvs \<noteq> [])"

text \<open>\<^verbatim>\<open>x or y\<close>: the first operand when it is truthy, the second otherwise.\<close>

definition py_or :: "pyval \<Rightarrow> pyval \<Rightarrow> pyval" where
  "py_or x y = (if truthy x then x else y)"

text \<open>
  \<^verbatim>\<open>key in x\<close> for a string key: key membership on a dictionary, element membership
  on a list (only a string element equals a string), substring test on a string, and
  \<^verbatim>\<open>TypeError\<close> on a value that is not iterable.
\<close>

fun py_in :: "string \<Rightarrow> pyval \<Rightarrow> exn + bool" where
  "py_in k (PyDict kvs) = Inr (k \<in> set (map fst kvs))"
| "py_in k (PyList xs) = Inr (PyStr k \<in> set xs)"
| "py_in k (PyStr s) = Inr (sublist k s)"
| "py_in k PyNone = Inl TypeError"
| "py_in k (PyBool b) = Inl TypeError"
| "py_in k (PyInt i) = Inl TypeError"

text \<open>
  \<^verbatim>\<open>x[key]\<close> for a string key: the value under the key of a dictionary
  (\<^verbatim>\<open>KeyError\<close> when absent), \<^verbatim>\<open>TypeError\<close> on every other value (a list and a
  string want integer indices, the rest is not subscriptable).
\<close>

fun py_getitem :: "pyval \<Rightarrow> string \<Rightarrow> exn + pyval" where
  "py_getitem (PyDict kvs) k = (case map_of kvs k of None \<Rightarrow> Inl KeyError | Some v \<Rightarrow> Inr v)"
| "py_getitem (PyList xs) k = Inl TypeError"
| "py_getitem (PyStr s) k = Inl TypeError"
| "py_getitem PyNone k = Inl TypeError"
| "py_getitem (PyBool b) k = Inl TypeError"
| "py_getitem (PyInt i) k = Inl TypeError"

text \<open>
  \<^verbatim>\<open>x.get(key, default)\<close>: only a dictionary has the method; on every other value
  the attribute lookup raises \<^verbatim>\<open>AttributeError\<close>.
\<close>

fun py_get :: "pyval \<Rightarrow> string \<Rightarrow> pyval \<Rightarrow> exn + pyval" where
  "py_get (PyDict kvs) k d = Inr (case map_of kvs k of None \<Rightarrow> d | Some v \<Rightarrow> v)"
| "py_get (PyList xs) k d = Inl AttributeError"
| "py_get (PyStr s) k d = Inl AttributeError"
| "py_get PyNone k d = Inl AttributeError"
| "py_get (PyBool b) k d = Inl AttributeError"
| "py_get (PyInt i) k d = Inl AttributeError"

text \<open>\<^verbatim>\<open>isinstance(x, dict)\<close>.\<close>

fun is_dict :: "pyval \<Rightarrow> bool" where
  "is_dict (PyDict kvs) = True"
| "is_dict v = False"

text \<open>Sequencing of operations that may raise, and the short-circuit \<^verbatim>\<open>and\<close>.\<close>

definition ebind :: "exn + 'a \<Rightarrow> ('a \<Rightarrow> exn + 'b) \<Rightarrow> exn + 'b" where
  "ebind m f = (case m of Inl e \<Rightarrow> Inl e | Inr v \<Rightarrow> f v)"

definition py_and :: "exn + bool \<Rightarrow> exn + bool \<Rightarrow> exn + bool" where
  "py_and a b = (case a of Inl e \<Rightarrow> Inl e | Inr c \<Rightarrow> if c then b else Inr False)"

subsection \<open>Strings of numbers\<close>

definition digit_char :: "nat \<Rightarrow> char" where
  "digit_char d = ''0123456789'' ! (d mod 10)"

fun dec_nat :: "nat \<Rightarrow> string" where
  "dec_nat n = (if n < 10 then [digit_char n] else dec_nat (n div 10) @ [digit_char (n mod 10)])"

declare dec_nat.simps [simp del]

text \<open>\<^verbatim>\<open>str(i)\<close> of an integer.\<close>

definition str_int :: "int \<Rightarrow> string" where
  "str_int i = (if i < 0 then CHR ''-'' # dec_nat (nat (- i)) else dec_nat (nat i))"

text \<open>
  The format specification \<^verbatim>\<open>04d\<close>: the decimal digits, filled with zeros between
  the sign and the digits up to a total width of four characters; never cut.
\<close>

definition zfill :: "nat \<Rightarrow> string \<Rightarrow> string" where
  "zfill w s = replicate (w - length s) CHR ''0'' @ s"

definition format_04d :: "int \<Rightarrow> string" where
  "format_04d i =
     (if i < 0 then CHR ''-'' # zfill 3 (dec_nat (nat (- i))) else zfill 4 (dec_nat (nat i)))"

subsection \<open>\<^verbatim>\<open>str.lower\<close>, \<^verbatim>\<open>repr\<close> and \<^verbatim>\<open>str\<close>\<close>

definition lower_char :: "char \<Rightarrow> char" where
  "lower_char c =
     (let n = (of_char c :: nat)
      in if (65 \<le> n \<and> n \<le> 90) \<or> (192 \<le> n \<and> n \<le> 222 \<and> n \<noteq> 215)
         then char_of (n + 32) else c)"

definition py_lower :: "string \<Rightarrow> string" where
  "py_lower s = map lower_char s"

definition hex_digit :: "nat \<Rightarrow> char" where
  "hex_digit d = ''0123456789abcdef'' ! (d mod 16)"

text \<open>
  \<^verbatim>\<open>repr\<close> of a string: single quotes, unless the string has a single quote and no
  double quote; the quote and the backslash escaped, tab, newline and carriage return
  by letter, the other characters that are not printable in hexadecimal.
\<close>

definition repr_char :: "char \<Rightarrow> char \<Rightarrow> string" where
  "repr_char q c =
     (let n = (of_char c :: nat)
      in if c = q \<or> c = CHR 0x5C then [CHR 0x5C, c]
         else if n = 9 then [CHR 0x5C, CHR ''t'']
         else if n = 10 then [CHR 0x5C, CHR ''n'']
         else if n = 13 then [CHR 0x5C, CHR ''r'']
         else if n < 32 \<or> n = 127 \<or> (128 \<le> n \<and> n \<le> 160) \<or> n = 173
           then [CHR 0x5C, CHR ''x'', hex_digit (n div 16), hex_digit (n mod 16)]
         else [c])"

definition repr_str :: "string \<Rightarrow> string" where
  "repr_str s =
     (let q = (if CHR 0x27 \<in> set s \<and> CHR 0x22 \<notin> set s then CHR 0x22 else CHR 0x27)
      in q # concat (map (repr_char q) s) @ [q])"

fun join :: "string \<Rightarrow> string list \<Rightarrow> string" where
  "join sep [] = []"
| "join sep [x] = x"
| "join sep (x # y # ys) = x @ sep @ join sep (y # ys)"

fun py_repr :: "pyval \<Rightarrow> string" where
  "py_repr PyNone = ''None''"
| "py_repr (PyBool b) = (if b then ''True'' else ''False'')"
| "py_repr (PyInt i) = str_int i"
| "py_repr (PyStr s) = repr_str s"
| "py_repr (PyList xs) = ''['' @ join '', '' (map py_repr xs) @ '']''"
| "py_repr (PyDict kvs) =
     ''{'' @ join '', '' (map (\<lambda>kv. repr_str (fst kv) @ '': '' @ py_repr (snd kv)) kvs) @ ''}''"

text \<open>\<^verbatim>\<open>str(x)\<close>: the string itself, and \<^verbatim>\<open>repr(x)\<close> for every other value.\<close>

definition py_str :: "pyval \<Rightarrow> string" where
  "py_str v = (case v of PyStr s \<Rightarrow> s | _ \<Rightarrow> py_repr v)"

section \<open>The ticket store\<close>

text \<open>
  One row of the table \<^verbatim>\<open>ingressos\<close> created by \<^verbatim>\<open>init_db\<close>. Every column but
  \<^verbatim>\<open>mp_payment_id\<close> is \<^verbatim>\<open>NOT NULL\<close>; \<^verbatim>\<open>codigo\<close> is the only column declared
  \<^verbatim>\<open>UNIQUE\<close>. The column \<^verbatim>\<open>id\<close> is \<open>row_id\<close> here.
\<close>

record ingresso =
  row_id :: int
  evento :: string
  seq :: int
  codigo :: string
  comprador_email :: string
  status :: string
  mp_payment_id :: "string option"
  created_at :: string

text \<open>
  The database: the rows in insertion order and the counter behind
  \<^verbatim>\<open>AUTOINCREMENT\<close> (the largest id handed out so far).
\<close>

record database =
  ingressos :: "ingresso list"
  sqlite_sequence :: int

definition init_db :: database where
  "init_db = \<lparr>ingressos = [], sqlite_sequence = 0\<rparr>"

text \<open>
  \<^verbatim>\<open>next_seq\<close>: \<^verbatim>\<open>SELECT MAX(seq)\<close> is \<^verbatim>\<open>NULL\<close> on an empty table, which the code
  reads as 0.
\<close>

definition select_max_seq :: "database \<Rightarrow> int option" where
  "select_max_seq d =
     (case map seq (ingressos d) of [] \<Rightarrow> None | x # xs \<Rightarrow> Some (fold max xs x))"

definition next_seq :: "database \<Rightarrow> int" where
  "next_seq d = (case select_max_seq d of None \<Rightarrow> 0 | Some maxseq \<Rightarrow> maxseq) + 1"

text \<open>\<^verbatim>\<open>format_code\<close>, with the module constant \<^verbatim>\<open>PREFIX\<close> as first argument.\<close>

definition format_code :: "string \<Rightarrow> int \<Rightarrow> string" where
  "format_code pfx sq = pfx @ format_04d sq"

definition default_PREFIX :: string where
  "default_PREFIX = ''LUAL''"

text \<open>
  \<^verbatim>\<open>SELECT * FROM ingressos WHERE mp_payment_id = ?\<close> followed by
  \<^verbatim>\<open>fetchone\<close>: the first row whose payment id is the given string, if any.
\<close>

definition select_by_payment :: "database \<Rightarrow> string \<Rightarrow> ingresso option" where
  "select_by_payment d k = find (\<lambda>r. mp_payment_id r = Some k) (ingressos d)"

text \<open>
  What the database driver does with the parameter for \<^verbatim>\<open>comprador_email\<close>, a
  column of type \<^verbatim>\<open>TEXT\<close>: a string is stored as it is, an integer that fits 64
  bits is stored as its decimal text (a boolean is the integer 1 or 0), \<^verbatim>\<open>None\<close>
  breaks \<^verbatim>\<open>NOT NULL\<close>, and a list or a dictionary cannot be bound.
\<close>

definition fits_int64 :: "int \<Rightarrow> bool" where
  "fits_int64 i = (- (2 ^ 63) \<le> i \<and> i < 2 ^ 63)"

fun bind_text :: "pyval \<Rightarrow> exn + string" where
  "bind_text (PyStr s) = Inr s"
| "bind_text (PyInt i) = (if fits_int64 i then Inr (str_int i) else Inl OverflowError)"
| "bind_text (PyBool b) = Inr (if b then ''1'' else ''0'')"
| "bind_text PyNone = Inl IntegrityError"
| "bind_text (PyList xs) = Inl InterfaceError"
| "bind_text (PyDict kvs) = Inl InterfaceError"

text \<open>
  The \<^verbatim>\<open>INSERT\<close> of the handler (lines 276 to 280) on a database file that no
  other connection has locked. The parameters are bound in order (a value that cannot
  be bound raises before the statement runs; the class is \<^verbatim>\<open>InterfaceError\<close>,
  \<^verbatim>\<open>ProgrammingError\<close> in later versions of the driver), then the row is checked
  against the only uniqueness constraint of the table, the one on \<^verbatim>\<open>codigo\<close>.
  Nothing constrains \<^verbatim>\<open>mp_payment_id\<close>.
\<close>

definition insert_ingresso ::
  "database \<Rightarrow> int \<Rightarrow> string \<Rightarrow> pyval \<Rightarrow> string \<Rightarrow> string \<Rightarrow> exn + database" where
  "insert_ingresso d sq code payer_email payment_key now =
     (if \<not> fits_int64 sq then Inl OverflowError
      else case bind_text payer_email of
        Inl e \<Rightarrow> Inl e
      | Inr email \<Rightarrow>
          if code \<in> set (map codigo (ingressos d)) then Inl IntegrityError
          else Inr \<lparr>ingressos = ingressos d @
                      [\<lparr>row_id = sqlite_sequence d + 1, evento = ''Lual na Praia'', seq = sq,
                        codigo = code, comprador_email = email, status = ''pago'',
                        mp_payment_id = Some payment_key, created_at = now\<rparr>],
                    sqlite_sequence = sqlite_sequence d + 1\<rparr>)"

section \<open>The request, the surroundings and the observable state\<close>

text \<open>
  A request to \<^verbatim>\<open>POST /webhook\<close>: what \<^verbatim>\<open>get_json(force=True, silent=True)\<close>
  returns (\<open>None\<close> when the body does not parse) and the query parameters.
\<close>

record request =
  json_body :: "pyval option"
  args :: "(string \<times> string) list"

text \<open>An e-mail handed to the mail transport: recipient, ticket code, attachment.\<close>

datatype attachment = Stamped string | Base

record email =
  recipient :: pyval
  ticket_code :: string
  attached :: "attachment option"

text \<open>
  What one run of the handler finds around it: the module constants, the answer of the
  gateway to \<^verbatim>\<open>sdk.payment().get(payment_id)\<close> (\<open>None\<close> when the call raises), the
  clock, whether \<^verbatim>\<open>os.makedirs\<close> succeeds, whether the base image exists, whether
  the block that stamps and saves the image for a code runs without an exception,
  whether the block that builds and sends a message does, and whether the connections
  that earlier handlers left open have been closed (collected) by the time this
  handler runs its \<^verbatim>\<open>INSERT\<close>.
\<close>

record env =
  PREFIX :: string
  MP_SDK_AVAILABLE :: bool
  PIL_AVAILABLE :: bool
  payment_get :: "pyval \<Rightarrow> pyval option"
  utcnow :: string
  makedirs_ok :: bool
  base_exists :: bool
  stamp_ok :: "string \<Rightarrow> bool"
  mail_ok :: "email \<Rightarrow> bool"
  stale_collected :: bool

text \<open>
  What a run can change: the database, the stamped images saved under
  \<^verbatim>\<open>static/ingressos\<close>, the messages sent, and whether a handler has left a
  connection open inside a write transaction. The last happens when the
  \<^verbatim>\<open>INSERT\<close> raises while it runs: the exception leaves the function past
  \<^verbatim>\<open>conn.commit()\<close> and \<^verbatim>\<open>conn.close()\<close> (lines 280 and 281, no
  \<^verbatim>\<open>finally\<close>), and the transaction the driver began for the statement keeps the
  write lock of the file for as long as the connection lives.
\<close>

record world =
  db :: database
  saved_images :: "string list"
  outbox :: "email list"
  write_locked :: bool

definition empty_world :: world where
  "empty_world = \<lparr>db = init_db, saved_images = [], outbox = [], write_locked = False\<rparr>"

text \<open>
  A view function returns a body and a status, or raises; an exception that leaves the
  view function makes the framework answer 500.
\<close>

type_synonym response = "string \<times> nat"

definition OK :: "exn + response" where
  "OK = Inr (''OK'', 200)"

definition http_status :: "exn + response \<Rightarrow> nat" where
  "http_status r = (case r of Inl e \<Rightarrow> 500 | Inr (body, code) \<Rightarrow> code)"

section \<open>The webhook\<close>

subsection \<open>Lines 189 to 208: the payment id\<close>

text \<open>\<^verbatim>\<open>request.get_json(force=True, silent=True) or {}\<close>.\<close>

definition get_payload :: "request \<Rightarrow> pyval" where
  "get_payload req =
     (case json_body req of None \<Rightarrow> PyDict [] | Some v \<Rightarrow> py_or v (PyDict []))"

text \<open>The conditions of the three branches that read the body, operand by operand.\<close>

definition type_branch :: "pyval \<Rightarrow> exn + bool" where
  "type_branch payload =
     py_and (py_in ''type'' payload)
    (py_and (ebind (py_getitem payload ''type'') (\<lambda>t. Inr (t = PyStr ''payment'')))
    (py_and (py_in ''data'' payload)
            (ebind (py_getitem payload ''data'') (py_in ''id''))))"

definition topic_branch :: "pyval \<Rightarrow> exn + bool" where
  "topic_branch payload =
     py_and (py_in ''topic'' payload)
    (py_and (ebind (py_getitem payload ''topic'') (\<lambda>t. Inr (t = PyStr ''payment'')))
            (py_in ''id'' payload))"

definition data_branch :: "pyval \<Rightarrow> exn + bool" where
  "data_branch payload =
     py_and (py_in ''data'' payload)
    (py_and (ebind (py_getitem payload ''data'') (\<lambda>d. Inr (is_dict d)))
            (ebind (py_getitem payload ''data'') (py_in ''id'')))"

text \<open>
  \<^verbatim>\<open>request.args.get("topic") == "payment" and request.args.get("id")\<close>: the first
  value of each parameter; an empty id is falsy. The result is the id the branch
  assigns, when its condition holds.
\<close>

definition args_branch :: "(string \<times> string) list \<Rightarrow> string option" where
  "args_branch qs =
     (if map_of qs ''topic'' = Some ''payment''
      then (case map_of qs ''id'' of None \<Rightarrow> None | Some i \<Rightarrow> if i = [] then None else Some i)
      else None)"

text \<open>The body of the \<^verbatim>\<open>try\<close>: the value of \<^verbatim>\<open>payment_id\<close>, or the exception.\<close>

definition payment_id_try :: "pyval \<Rightarrow> (string \<times> string) list \<Rightarrow> exn + pyval" where
  "payment_id_try payload qs =
     ebind (type_branch payload) (\<lambda>c1.
       if c1 then ebind (py_getitem payload ''data'') (\<lambda>d. py_getitem d ''id'')
       else ebind (topic_branch payload) (\<lambda>c2.
         if c2 then py_getitem payload ''id''
         else ebind (data_branch payload) (\<lambda>c3.
           if c3 then ebind (py_getitem payload ''data'') (\<lambda>d. py_getitem d ''id'')
           else (case args_branch qs of Some i \<Rightarrow> Inr (PyStr i) | None \<Rightarrow> Inr PyNone))))"

text \<open>With the \<^verbatim>\<open>except Exception\<close> clause, which sets \<^verbatim>\<open>payment_id = None\<close>.\<close>

definition extract_payment_id :: "request \<Rightarrow> pyval" where
  "extract_payment_id req =
     (case payment_id_try (get_payload req) (args req) of Inl e \<Rightarrow> PyNone | Inr v \<Rightarrow> v)"

subsection \<open>Lines 215 to 227: the status of the payment\<close>

text \<open>
  The guarded lookup: \<open>None\<close> stands for the \<^verbatim>\<open>except\<close> branch (the call raised, or
  its result has no \<^verbatim>\<open>get\<close>), which answers OK.
\<close>

definition fetch_payment_info :: "env \<Rightarrow> pyval \<Rightarrow> pyval option" where
  "fetch_payment_info e payment_id =
     (case payment_get e payment_id of
        None \<Rightarrow> None
      | Some payment \<Rightarrow>
          (case py_get payment ''response'' (PyDict []) of
             Inl x \<Rightarrow> None
           | Inr payment_info \<Rightarrow> Some payment_info))"

text \<open>Lines 223 to 225, outside every \<^verbatim>\<open>try\<close>: the status and the buyer's address.\<close>

definition sentinel_email :: string where
  "sentinel_email = ''sem-email@local''"

definition read_status_email :: "pyval \<Rightarrow> exn + pyval \<times> pyval" where
  "read_status_email payment_info =
     ebind (py_get payment_info ''status'' PyNone) (\<lambda>st.
     ebind (py_get payment_info ''payer'' (PyDict [])) (\<lambda>payer.
     ebind (py_get payer ''email'' PyNone) (\<lambda>em.
     ebind (if truthy em then Inr em
            else ebind (py_get payment_info ''payer_email'' PyNone) (\<lambda>pe.
                 Inr (py_or pe (PyStr sentinel_email)))) (\<lambda>payer_email.
     Inr (st, payer_email)))))"

text \<open>
  Line 227, \<^verbatim>\<open>status and status.lower() == "approved"\<close>: a falsy status is not
  approved, a string is compared in lower case, and any other truthy value has no
  \<^verbatim>\<open>lower\<close>.
\<close>

definition is_approved :: "pyval \<Rightarrow> exn + bool" where
  "is_approved st =
     (if \<not> truthy st then Inr False
      else case st of PyStr s \<Rightarrow> Inr (py_lower s = ''approved'') | _ \<Rightarrow> Inl AttributeError)"

subsection \<open>Lines 229 to 300: issuing the ticket\<close>

text \<open>
  What the handler holds when it reaches the \<^verbatim>\<open>INSERT\<close>: the values it is about to
  write and whether a stamped image was saved.
\<close>

record pending =
  p_seq :: int
  p_codigo :: string
  p_email :: pyval
  p_payment :: string
  p_now :: string
  p_generated :: bool

text \<open>
  Lines 237 to 273, once the lookup by payment id has found no row: the sequence number
  and the code read from the table as it is now, the directory (\<^verbatim>\<open>os.makedirs\<close>,
  under the comment that opens the generation of the image and outside every
  \<^verbatim>\<open>try\<close>), the stamped image. Either the handler is over, with an exception, or
  it goes on to the \<^verbatim>\<open>INSERT\<close>.
\<close>

definition issue_after_lookup :: "env \<Rightarrow> pyval \<Rightarrow> pyval \<Rightarrow> world \<Rightarrow> ((exn + response) + pending) \<times> world" where
  "issue_after_lookup e payment_id payer_email w =
     (let sq = next_seq (db w);
          code = format_code (PREFIX e) sq;
          now = utcnow e
      in if \<not> makedirs_ok e then (Inl (Inl OSError), w)
         else let generated = (PIL_AVAILABLE e \<and> base_exists e \<and> stamp_ok e code)
              in (Inr \<lparr>p_seq = sq, p_codigo = code, p_email = payer_email,
                       p_payment = py_str payment_id, p_now = now,
                       p_generated = generated\<rparr>,
                  if generated
                  then w\<lparr>saved_images := saved_images w @ [code @ ''.png'']\<rparr>
                  else w))"

text \<open>
  Lines 229 to 273 with nothing in between: the lookup by payment id (line 231) and
  what follows it see the same state. A row found ends the handler with OK.
\<close>

definition issue_prepare :: "env \<Rightarrow> pyval \<Rightarrow> pyval \<Rightarrow> world \<Rightarrow> ((exn + response) + pending) \<times> world" where
  "issue_prepare e payment_id payer_email w =
     (case select_by_payment (db w) (py_str payment_id) of
        Some already \<Rightarrow> (Inl OK, w)
      | None \<Rightarrow> issue_after_lookup e payment_id payer_email w)"

text \<open>The handler from its first line up to the \<^verbatim>\<open>INSERT\<close> (lines 189 to 273).\<close>

definition webhook_prepare :: "env \<Rightarrow> request \<Rightarrow> world \<Rightarrow> ((exn + response) + pending) \<times> world" where
  "webhook_prepare e req w =
     (let payment_id = extract_payment_id req
      in if \<not> truthy payment_id then (Inl OK, w)
         else if \<not> MP_SDK_AVAILABLE e then (Inl OK, w)
         else case fetch_payment_info e payment_id of
                None \<Rightarrow> (Inl OK, w)
              | Some payment_info \<Rightarrow>
                  (case read_status_email payment_info of
                     Inl x \<Rightarrow> (Inl (Inl x), w)
                   | Inr (st, payer_email) \<Rightarrow>
                       (case is_approved st of
                          Inl x \<Rightarrow> (Inl (Inl x), w)
                        | Inr False \<Rightarrow> (Inl OK, w)
                        | Inr True \<Rightarrow> issue_prepare e payment_id payer_email w)))"

text \<open>
  Lines 276 to 300: the \<^verbatim>\<open>INSERT\<close>, which is outside every \<^verbatim>\<open>try\<close>, then the
  message. The stamped image is attached when one was saved, else the base image when
  it exists. Whatever happens to the message, the answer is OK.

  The statement cannot run while a connection that an earlier handler left open holds
  the write lock: it raises \<^verbatim>\<open>OperationalError\<close> (database is locked). When it
  runs and breaks a constraint, this handler in turn leaves its connection open with the
  lock. When it succeeds, the handler commits and closes. An exception raised while the
  parameters are bound comes before the statement runs and takes no lock.
\<close>

definition busy :: "env \<Rightarrow> world \<Rightarrow> bool" where
  "busy e w = (write_locked w \<and> \<not> stale_collected e)"

definition build_message :: "env \<Rightarrow> pending \<Rightarrow> email" where
  "build_message e p =
     \<lparr>recipient = p_email p, ticket_code = p_codigo p,
      attached = (if p_generated p then Some (Stamped (p_codigo p @ ''.png''))
                  else if base_exists e then Some Base else None)\<rparr>"

definition webhook_commit :: "env \<Rightarrow> pending \<Rightarrow> world \<Rightarrow> (exn + response) \<times> world" where
  "webhook_commit e p w =
     (case insert_ingresso (db w) (p_seq p) (p_codigo p) (p_email p) (p_payment p) (p_now p) of
        Inl x \<Rightarrow>
          if x \<noteq> IntegrityError then (Inl x, w)
          else if busy e w then (Inl OperationalError, w)
          else (Inl IntegrityError, w\<lparr>write_locked := True\<rparr>)
      | Inr d \<Rightarrow>
          if busy e w then (Inl OperationalError, w)
          else (OK, if mail_ok e (build_message e p)
                    then w\<lparr>db := d, outbox := outbox w @ [build_message e p],
                           write_locked := False\<rparr>
                    else w\<lparr>db := d, write_locked := False\<rparr>))"

text \<open>One delivery handled from start to end with nothing in between.\<close>

definition webhook :: "env \<Rightarrow> request \<Rightarrow> world \<Rightarrow> (exn + response) \<times> world" where
  "webhook e req w =
     (case webhook_prepare e req w of
        (Inl r, w') \<Rightarrow> (r, w')
      | (Inr p, w') \<Rightarrow> webhook_commit e p w')"

subsection \<open>Deliveries one after another\<close>

text \<open>
  The states of the system when deliveries are handled one at a time, each in whatever
  surroundings it finds, starting from the empty table that \<^verbatim>\<open>init_db\<close> creates.
\<close>

inductive reachable :: "world \<Rightarrow> bool" where
  reachable_init: "reachable empty_world"
| reachable_step: "reachable w \<Longrightarrow> reachable (snd (webhook e req w))"

text \<open>The same with one value of \<^verbatim>\<open>PREFIX\<close> throughout, as within one process.\<close>

inductive reachable_with :: "string \<Rightarrow> world \<Rightarrow> bool" for pfx :: string where
  with_init: "reachable_with pfx empty_world"
| with_step: "reachable_with pfx w \<Longrightarrow> PREFIX e = pfx \<Longrightarrow>
              reachable_with pfx (snd (webhook e req w))"

text \<open>The payment references of the rows that have one, in row order.\<close>

definition payment_refs :: "database \<Rightarrow> string list" where
  "payment_refs d = List.map_filter mp_payment_id (ingressos d)"

section \<open>The extraction policy as the specification words it\<close>

text \<open>
  Section 4.3 of the specification: a member of the payload is present when the payload
  is an object that has it; \<open>payload.data.id\<close> is the member \<open>id\<close> of the member
  \<open>data\<close>. The rules are tried in order and the first that matches gives the id.
\<close>

fun member :: "pyval \<Rightarrow> string \<Rightarrow> pyval option" where
  "member (PyDict kvs) k = map_of kvs k"
| "member v k = None"

definition data_id :: "pyval \<Rightarrow> pyval option" where
  "data_id payload = (case member payload ''data'' of None \<Rightarrow> None | Some d \<Rightarrow> member d ''id'')"

definition spec_payment_id :: "pyval \<Rightarrow> (string \<times> string) list \<Rightarrow> pyval option" where
  "spec_payment_id payload qs =
     (if member payload ''type'' = Some (PyStr ''payment'') \<and> data_id payload \<noteq> None
        then data_id payload
      else if member payload ''topic'' = Some (PyStr ''payment'') \<and> member payload ''id'' \<noteq> None
        then member payload ''id''
      else if data_id payload \<noteq> None
        then data_id payload
      else if map_of qs ''topic'' = Some ''payment'' \<and> map_of qs ''id'' \<noteq> None
        then map_option PyStr (map_of qs ''id'')
      else None)"

text \<open>
  The id the handler goes on with: line 207 treats a falsy id (\<^verbatim>\<open>None\<close>, zero, an
  empty string or container) as no id.
\<close>

definition usable :: "pyval option \<Rightarrow> pyval option" where
  "usable x = (case x of None \<Rightarrow> None | Some v \<Rightarrow> if truthy v then Some v else None)"

section \<open>Concrete deliveries\<close>

text \<open>A notification \<^verbatim>\<open>{"type": "payment", "data": {"id": i}}\<close> with no query.\<close>

definition payment_notification :: "pyval \<Rightarrow> request" where
  "payment_notification i =
     \<lparr>json_body = Some (PyDict [(''type'', PyStr ''payment''), (''data'', PyDict [(''id'', i)])]),
      args = []\<rparr>"

text \<open>
  What the gateway client returns for a payment with the given status and buyer, and
  for a payment it does not know: the HTTP status and the parsed body, which in the
  second case is the provider's error document with a numeric \<open>status\<close>.
\<close>

definition payment_found :: "string \<Rightarrow> string \<Rightarrow> pyval" where
  "payment_found st addr =
     PyDict [(''status'', PyInt 200),
             (''response'', PyDict [(''status'', PyStr st),
                                    (''payer'', PyDict [(''email'', PyStr addr)])])]"

definition payment_not_found :: pyval where
  "payment_not_found =
     PyDict [(''status'', PyInt 404),
             (''response'', PyDict [(''message'', PyStr ''Payment not found''),
                                    (''error'', PyStr ''not_found''),
                                    (''status'', PyInt 404)])]"

text \<open>
  Surroundings with the default prefix in which the gateway answers every lookup with
  the given value, the image library is present but the stamping fails, the mail
  transport refuses every message, and a connection left open is still open.
\<close>

definition env_answering :: "pyval \<Rightarrow> env" where
  "env_answering answer =
     \<lparr>PREFIX = default_PREFIX, MP_SDK_AVAILABLE = True, PIL_AVAILABLE = True,
      payment_get = (\<lambda>i. Some answer), utcnow = ''2025-09-20T12:00:00'',
      makedirs_ok = True, base_exists = True, stamp_ok = (\<lambda>c. False),
      mail_ok = (\<lambda>m. False), stale_collected = False\<rparr>"

definition env_approved :: env where
  "env_approved = env_answering (payment_found ''approved'' ''a@b.com'')"

text \<open>The first row issued in \<open>env_approved\<close> for a payment reference.\<close>

definition first_ticket :: "string \<Rightarrow> ingresso" where
  "first_ticket k =
     \<lparr>row_id = 1, evento = ''Lual na Praia'', seq = 1, codigo = ''LUAL0001'',
      comprador_email = ''a@b.com'', status = ''pago'', mp_payment_id = Some k,
      created_at = ''2025-09-20T12:00:00''\<rparr>"

text \<open>
  What a handler holds at the \<^verbatim>\<open>INSERT\<close> when it has read the empty table in
  \<open>env_approved\<close> for a payment reference.
\<close>

definition first_pending :: "string \<Rightarrow> pending" where
  "first_pending k =
     \<lparr>p_seq = 1, p_codigo = ''LUAL0001'', p_email = PyStr ''a@b.com'', p_payment = k,
      p_now = ''2025-09-20T12:00:00'', p_generated = False\<rparr>"

text \<open>The state after that row alone has been issued.\<close>

definition issued_world :: "string \<Rightarrow> world" where
  "issued_world k =
     \<lparr>db = \<lparr>ingressos = [first_ticket k], sqlite_sequence = 1\<rparr>,
      saved_images = [], outbox = [], write_locked = False\<rparr>"

text \<open>
  A request with the body
  \<^verbatim>\<open>{"type": "payment", "data": null, "topic": "payment", "id": "7"}\<close>.
\<close>

definition null_data_request :: request where
  "null_data_request =
     \<lparr>json_body = Some (PyDict [(''type'', PyStr ''payment''), (''data'', PyNone),
                                 (''topic'', PyStr ''payment''), (''id'', PyStr ''7'')]),
      args = []\<rparr>"

text \<open>
  The table after a second row with the same payment reference and a new code has been
  added to \<open>issued_world ''999''\<close>.
\<close>

definition two_tickets_db :: database where
  "two_tickets_db =
     \<lparr>ingressos = [first_ticket ''999'',
                   \<lparr>row_id = 2, evento = ''Lual na Praia'', seq = 2, codigo = ''LUAL0002'',
                    comprador_email = ''c@d.com'', status = ''pago'',
                    mp_payment_id = Some ''999'', created_at = ''2025-09-21T08:00:00''\<rparr>],
      sqlite_sequence = 2\<rparr>"

text \<open>
  The second row issued in \<open>env_approved\<close>, what a handler holds at the
  \<^verbatim>\<open>INSERT\<close> when it has read the sequence number from a table with the first
  row, and the state after both rows have been issued.
\<close>

definition second_ticket :: "string \<Rightarrow> ingresso" where
  "second_ticket k =
     \<lparr>row_id = 2, evento = ''Lual na Praia'', seq = 2, codigo = ''LUAL0002'',
      comprador_email = ''a@b.com'', status = ''pago'', mp_payment_id = Some k,
      created_at = ''2025-09-20T12:00:00''\<rparr>"

definition second_pending :: "string \<Rightarrow> pending" where
  "second_pending k =
     \<lparr>p_seq = 2, p_codigo = ''LUAL0002'', p_email = PyStr ''a@b.com'', p_payment = k,
      p_now = ''2025-09-20T12:00:00'', p_generated = False\<rparr>"

definition two_issued_world :: "string \<Rightarrow> string \<Rightarrow> world" where
  "two_issued_world k1 k2 =
     \<lparr>db = \<lparr>ingressos = [first_ticket k1, second_ticket k2], sqlite_sequence = 2\<rparr>,
      saved_images = [], outbox = [], write_locked = False\<rparr>"



text \<open>A request with the body \<^verbatim>\<open>{}\<close> and no query.\<close>

definition empty_request :: request where
  "empty_request = \<lparr>json_body = Some (PyDict []), args = []\<rparr>"

section \<open>Properties\<close>

subsection \<open>The payment id read from a request\<close>

text \<open>
  Whenever the \<^verbatim>\<open>try\<close> block ends without an exception, its result is the id of
  the specification's precedence, up to ids that are falsy.
\<close>

lemma in_keys_iff: "k \<in> fst ` set kvs \<longleftrightarrow> map_of kvs k \<noteq> None"
  by (simp add: map_of_eq_None_iff)

lemma member_not_dict: "\<not> is_dict d \<Longrightarrow> member d k = None"
  by (cases d) auto

lemma id_of_other_payload:
  assumes "\<not> is_dict payload" "payment_id_try payload qs = Inr v"
  shows "v = (case args_branch qs of Some i \<Rightarrow> PyStr i | None \<Rightarrow> PyNone)"
  using assms
  by (cases payload)
     (auto simp: payment_id_try_def type_branch_def topic_branch_def data_branch_def
        py_and_def ebind_def split: if_splits option.splits sum.splits)

lemma usable_args:
  "usable (Some (case args_branch qs of Some i \<Rightarrow> PyStr i | None \<Rightarrow> PyNone)) =
   usable (if map_of qs ''topic'' = Some ''payment'' \<and> map_of qs ''id'' \<noteq> None
        then map_option PyStr (map_of qs ''id'') else None)"
  by (auto simp: usable_def args_branch_def split: option.splits)

lemma type_branch_dict:
  "type_branch (PyDict kvs) =
     (if map_of kvs ''type'' = Some (PyStr ''payment'')
      then (case map_of kvs ''data'' of None \<Rightarrow> Inr False | Some d \<Rightarrow> py_in ''id'' d)
      else Inr False)"
  by (auto simp: type_branch_def py_and_def ebind_def in_keys_iff split: option.splits)

lemma topic_branch_dict:
  "topic_branch (PyDict kvs) =
     Inr (map_of kvs ''topic'' = Some (PyStr ''payment'') \<and> map_of kvs ''id'' \<noteq> None)"
  by (auto simp: topic_branch_def py_and_def ebind_def in_keys_iff split: option.splits)

lemma data_branch_dict:
  "data_branch (PyDict kvs) = Inr (data_id (PyDict kvs) \<noteq> None)"
proof (cases "map_of kvs ''data''")
  case None
  then show ?thesis
    by (simp add: data_branch_def data_id_def py_and_def ebind_def in_keys_iff)
next
  case (Some d)
  then show ?thesis
    by (cases d)
       (auto simp: data_branch_def data_id_def py_and_def ebind_def in_keys_iff)
qed

lemma data_getitem:
  "ebind (py_getitem (PyDict kvs) ''data'') (\<lambda>d. py_getitem d ''id'') = Inr v \<Longrightarrow>
   data_id (PyDict kvs) = Some v"
  by (cases "map_of kvs ''data''"; cases "the (map_of kvs ''data'')")
     (auto simp: ebind_def data_id_def split: option.splits)

lemma type_branch_False:
  "type_branch (PyDict kvs) = Inr False \<Longrightarrow>
   \<not> (map_of kvs ''type'' = Some (PyStr ''payment'') \<and> data_id (PyDict kvs) \<noteq> None)"
  by (cases "map_of kvs ''data''"; cases "the (map_of kvs ''data'')")
     (auto simp: type_branch_dict data_id_def in_keys_iff split: if_splits)

lemma type_branch_True:
  "type_branch (PyDict kvs) = Inr True \<Longrightarrow> map_of kvs ''type'' = Some (PyStr ''payment'')"
  by (auto simp: type_branch_dict split: if_splits)

lemma data_id_Some:
  "data_id (PyDict kvs) = Some u \<Longrightarrow>
   \<exists>dk. map_of kvs ''data'' = Some (PyDict dk) \<and> map_of dk ''id'' = Some u"
proof -
  assume a: "data_id (PyDict kvs) = Some u"
  then obtain d where d: "map_of kvs ''data'' = Some d" "member d ''id'' = Some u"
    by (auto simp: data_id_def split: option.splits)
  then show ?thesis by (cases d) auto
qed

lemma id_of_object:
  assumes "payment_id_try (PyDict kvs) qs = Inr v"
  shows "usable (Some v) = usable (spec_payment_id (PyDict kvs) qs)"
proof (cases "type_branch (PyDict kvs)")
  case (Inl x)
  with assms show ?thesis by (simp add: payment_id_try_def ebind_def)
next
  case (Inr c1)
  show ?thesis
  proof (cases c1)
    case True
    with Inr assms have "data_id (PyDict kvs) = Some v"
      by (auto simp: payment_id_try_def ebind_def intro: data_getitem [unfolded ebind_def])
    with Inr True show ?thesis
      by (auto simp: spec_payment_id_def dest: type_branch_True)
  next
    case False
    with Inr have no1: "\<not> (map_of kvs ''type'' = Some (PyStr ''payment'') \<and> data_id (PyDict kvs) \<noteq> None)"
      by (auto dest: type_branch_False)
    show ?thesis
    proof (cases "map_of kvs ''topic'' = Some (PyStr ''payment'') \<and> map_of kvs ''id'' \<noteq> None")
      case True
      with Inr False assms no1 show ?thesis
        by (auto simp: payment_id_try_def ebind_def topic_branch_dict spec_payment_id_def)
    next
      case no2: False
      show ?thesis
      proof (cases "data_id (PyDict kvs)")
        case None
        with Inr False assms no2
        have v: "v = (case args_branch qs of Some i \<Rightarrow> PyStr i | None \<Rightarrow> PyNone)"
          by (auto simp: payment_id_try_def ebind_def topic_branch_dict data_branch_dict
              split: option.splits)
        from None no2 have "spec_payment_id (PyDict kvs) qs =
            (if map_of qs ''topic'' = Some ''payment'' \<and> map_of qs ''id'' \<noteq> None
             then map_option PyStr (map_of qs ''id'') else None)"
          by (auto simp: spec_payment_id_def)
        then show ?thesis by (simp only: v usable_args)
      next
        case (Some u)
        then obtain dk where "map_of kvs ''data'' = Some (PyDict dk)" "map_of dk ''id'' = Some u"
          by (auto dest: data_id_Some)
        with Some Inr False assms no2 have "v = u"
          by (auto simp: payment_id_try_def ebind_def topic_branch_dict data_branch_dict)
        with Some no1 no2 show ?thesis
          by (auto simp: spec_payment_id_def)
      qed
    qed
  qed
qed

lemma id_by_precedence:
  assumes "payment_id_try payload qs = Inr v"
  shows "usable (Some v) = usable (spec_payment_id payload qs)"
proof (cases "is_dict payload")
  case True
  then obtain kvs where "payload = PyDict kvs" by (cases payload) auto
  with assms show ?thesis by (simp add: id_of_object)
next
  case False
  from False assms have "v = (case args_branch qs of Some i \<Rightarrow> PyStr i | None \<Rightarrow> PyNone)"
    by (rule id_of_other_payload)
  moreover from False have "spec_payment_id payload qs =
      (if map_of qs ''topic'' = Some ''payment'' \<and> map_of qs ''id'' \<noteq> None
        then map_option PyStr (map_of qs ''id'') else None)"
    by (simp add: spec_payment_id_def data_id_def member_not_dict)
  ultimately show ?thesis by (simp add: usable_args)
qed

lemma id_well_shaped:
  assumes "is_dict payload" and "\<forall>d. member payload ''data'' = Some d \<longrightarrow> is_dict d"
  shows "\<exists>v. payment_id_try payload qs = Inr v"
proof -
  from assms(1) obtain kvs where p: "payload = PyDict kvs" by (cases payload) auto
  show ?thesis
  proof (cases "map_of kvs ''data''")
    case None
    then show ?thesis
      by (auto simp: p payment_id_try_def type_branch_dict topic_branch_dict data_branch_dict
          data_id_def ebind_def split: option.splits)
  next
    case (Some d)
    with assms(2) p obtain dk where d: "d = PyDict dk" by (cases d) auto
    with Some show ?thesis
      by (auto simp: p payment_id_try_def type_branch_dict topic_branch_dict data_branch_dict
          data_id_def ebind_def in_keys_iff split: option.splits)
  qed
qed

subsection \<open>The steps of one delivery\<close>

text \<open>
  What each part of the handler returns and what it leaves of the state; then the three
  ways a delivery can end: no usable id or no approval (answer OK, nothing changed), a
  row found for the payment (the same), a row inserted.
\<close>

lemma issue_after_lookup_Inl:
  "issue_after_lookup e pid em w = (Inl r, w') \<Longrightarrow> w' = w \<and> r = Inl OSError \<and> \<not> makedirs_ok e"
  by (auto simp: issue_after_lookup_def Let_def split: if_splits)

lemma issue_after_lookup_Inr:
  "issue_after_lookup e pid em w = (Inr p, w') \<Longrightarrow>
     db w' = db w \<and> outbox w' = outbox w \<and> write_locked w' = write_locked w \<and> makedirs_ok e \<and>
     p = \<lparr>p_seq = next_seq (db w), p_codigo = format_code (PREFIX e) (next_seq (db w)),
          p_email = em, p_payment = py_str pid, p_now = utcnow e,
          p_generated = (PIL_AVAILABLE e \<and> base_exists e \<and>
                         stamp_ok e (format_code (PREFIX e) (next_seq (db w))))\<rparr>"
  by (auto simp: issue_after_lookup_def Let_def split: if_splits)

lemma issue_prepare_Inl: "issue_prepare e pid em w = (Inl r, w') \<Longrightarrow> w' = w"
  by (auto simp: issue_prepare_def dest: issue_after_lookup_Inl split: option.splits)

lemma issue_prepare_Inr:
  "issue_prepare e pid em w = (Inr p, w') \<Longrightarrow>
     db w' = db w \<and> outbox w' = outbox w \<and> write_locked w' = write_locked w \<and> makedirs_ok e \<and>
     select_by_payment (db w) (py_str pid) = None \<and>
     p = \<lparr>p_seq = next_seq (db w), p_codigo = format_code (PREFIX e) (next_seq (db w)),
          p_email = em, p_payment = py_str pid, p_now = utcnow e,
          p_generated = (PIL_AVAILABLE e \<and> base_exists e \<and>
                         stamp_ok e (format_code (PREFIX e) (next_seq (db w))))\<rparr>"
  by (auto simp: issue_prepare_def OK_def dest!: issue_after_lookup_Inr split: option.splits)

lemma webhook_prepare_Inl: "webhook_prepare e req w = (Inl r, w') \<Longrightarrow> w' = w"
  by (auto simp: webhook_prepare_def Let_def dest: issue_prepare_Inl
      split: option.splits if_splits sum.splits bool.splits prod.splits)

lemma webhook_prepare_Inr:
  "webhook_prepare e req w = (Inr p, w') \<Longrightarrow>
     \<exists>em. issue_prepare e (extract_payment_id req) em w = (Inr p, w')"
  by (auto simp: webhook_prepare_def Let_def OK_def
      split: option.splits if_splits sum.splits bool.splits prod.splits)

lemma webhook_commit_Inl:
  "webhook_commit e p w = (Inl x, w') \<Longrightarrow>
     db w' = db w \<and> outbox w' = outbox w \<and> saved_images w' = saved_images w"
  by (auto simp: webhook_commit_def OK_def split: sum.splits if_splits)

lemma webhook_commit_Inr:
  "webhook_commit e p w = (Inr r, w') \<Longrightarrow>
     Inr r = OK \<and> saved_images w' = saved_images w \<and> \<not> busy e w \<and> \<not> write_locked w' \<and>
     insert_ingresso (db w) (p_seq p) (p_codigo p) (p_email p) (p_payment p) (p_now p) = Inr (db w')"
  by (auto simp: webhook_commit_def OK_def split: sum.splits if_splits)

lemma insert_ingresso_Inr:
  "insert_ingresso d sq code em k now = Inr d' \<Longrightarrow>
     \<exists>addr. bind_text em = Inr addr \<and> fits_int64 sq \<and> code \<notin> set (map codigo (ingressos d)) \<and>
       d' = \<lparr>ingressos = ingressos d @
                [\<lparr>row_id = sqlite_sequence d + 1, evento = ''Lual na Praia'', seq = sq,
                  codigo = code, comprador_email = addr, status = ''pago'',
                  mp_payment_id = Some k, created_at = now\<rparr>],
             sqlite_sequence = sqlite_sequence d + 1\<rparr>"
  by (auto simp: insert_ingresso_def split: sum.splits if_splits)


lemma webhook_db:
  assumes "webhook e req w = (r, w')"
  shows "db w' = db w \<or>
         (r = OK \<and> select_by_payment (db w) (py_str (extract_payment_id req)) = None \<and>
          (\<exists>em. insert_ingresso (db w) (next_seq (db w))
                  (format_code (PREFIX e) (next_seq (db w))) em
                  (py_str (extract_payment_id req)) (utcnow e) = Inr (db w')))"
proof (cases "webhook_prepare e req w")
  case (Pair a w1)
  show ?thesis
  proof (cases a)
    case (Inl r1)
    with Pair assms have "w' = w"
      by (auto simp: webhook_def dest: webhook_prepare_Inl)
    then show ?thesis by simp
  next
    case (Inr p)
    with Pair obtain em where ip: "issue_prepare e (extract_payment_id req) em w = (Inr p, w1)"
      by (auto dest: webhook_prepare_Inr)
    note facts = issue_prepare_Inr [OF ip]
    from Pair Inr assms have c: "webhook_commit e p w1 = (r, w')"
      by (simp add: webhook_def)
    show ?thesis
    proof (cases r)
      case (Inl x)
      with c have "db w' = db w1" by (auto dest: webhook_commit_Inl)
      with facts show ?thesis by simp
    next
      case (Inr resp)
      with c have "r = OK" and
        "insert_ingresso (db w1) (p_seq p) (p_codigo p) (p_email p) (p_payment p) (p_now p) = Inr (db w')"
        by (auto dest: webhook_commit_Inr)
      with facts show ?thesis by auto
    qed
  qed
qed

lemma webhook_rows:
  "ingressos (db (snd (webhook e req w))) = ingressos (db w) \<or>
   (fst (webhook e req w) = OK \<and>
    select_by_payment (db w) (py_str (extract_payment_id req)) = None \<and>
    (\<exists>addr. ingressos (db (snd (webhook e req w))) = ingressos (db w) @
        [\<lparr>row_id = sqlite_sequence (db w) + 1, evento = ''Lual na Praia'',
          seq = next_seq (db w), codigo = format_code (PREFIX e) (next_seq (db w)),
          comprador_email = addr, status = ''pago'',
          mp_payment_id = Some (py_str (extract_payment_id req)), created_at = utcnow e\<rparr>]))"
proof -
  obtain r w' where rw: "webhook e req w = (r, w')" by (cases "webhook e req w")
  from webhook_db [OF rw] show ?thesis
  proof
    assume "db w' = db w"
    with rw show ?thesis by simp
  next
    assume a: "r = OK \<and> select_by_payment (db w) (py_str (extract_payment_id req)) = None \<and>
          (\<exists>em. insert_ingresso (db w) (next_seq (db w))
                  (format_code (PREFIX e) (next_seq (db w))) em
                  (py_str (extract_payment_id req)) (utcnow e) = Inr (db w'))"
    then obtain em where "insert_ingresso (db w) (next_seq (db w))
                  (format_code (PREFIX e) (next_seq (db w))) em
                  (py_str (extract_payment_id req)) (utcnow e) = Inr (db w')" by blast
    from insert_ingresso_Inr [OF this] a rw show ?thesis by auto
  qed
qed

lemma webhook_no_id: "\<not> truthy (extract_payment_id req) \<Longrightarrow> webhook e req w = (OK, w)"
  by (simp add: webhook_def webhook_prepare_def)

lemma webhook_lookup_failed:
  "fetch_payment_info e (extract_payment_id req) = None \<Longrightarrow> webhook e req w = (OK, w)"
  by (simp add: webhook_def webhook_prepare_def Let_def)

lemma webhook_not_approved:
  assumes "fetch_payment_info e (extract_payment_id req) = Some info"
    and "read_status_email info = Inr (st, em)"
    and "is_approved st = Inr False"
  shows "webhook e req w = (OK, w)"
  using assms by (simp add: webhook_def webhook_prepare_def Let_def)

lemma is_approved_other_string:
  "py_lower s \<noteq> ''approved'' \<Longrightarrow> is_approved (PyStr s) = Inr False"
  by (simp add: is_approved_def)

lemma is_approved_falsy: "\<not> truthy st \<Longrightarrow> is_approved st = Inr False"
  by (simp add: is_approved_def)


lemma webhook_approved:
  assumes "truthy (extract_payment_id req)" and "MP_SDK_AVAILABLE e"
    and "fetch_payment_info e (extract_payment_id req) = Some info"
    and "read_status_email info = Inr (st, em)"
    and "is_approved st = Inr True"
  shows "webhook e req w =
          (case issue_prepare e (extract_payment_id req) em w of
             (Inl r, w') \<Rightarrow> (r, w')
           | (Inr p, w') \<Rightarrow> webhook_commit e p w')"
  using assms by (simp add: webhook_def webhook_prepare_def)

lemma webhook_found:
  assumes "truthy (extract_payment_id req)" and "MP_SDK_AVAILABLE e"
    and "fetch_payment_info e (extract_payment_id req) = Some info"
    and "read_status_email info = Inr (st, em)"
    and "is_approved st = Inr True"
    and "select_by_payment (db w) (py_str (extract_payment_id req)) = Some row"
  shows "webhook e req w = (OK, w)"
  using assms by (simp add: webhook_approved issue_prepare_def)





subsection \<open>Rows and payment references\<close>

text \<open>
  A delivery appends at most one row, and only under a payment reference that no row
  has yet.
\<close>

lemma select_by_payment_None:
  "select_by_payment d k = None \<longleftrightarrow> Some k \<notin> set (map mp_payment_id (ingressos d))"
  by (force simp: select_by_payment_def find_None_iff)


lemma webhook_keys:
  "map mp_payment_id (ingressos (db (snd (webhook e req w)))) = map mp_payment_id (ingressos (db w)) \<or>
   (Some (py_str (extract_payment_id req)) \<notin> set (map mp_payment_id (ingressos (db w))) \<and>
    map mp_payment_id (ingressos (db (snd (webhook e req w)))) =
      map mp_payment_id (ingressos (db w)) @ [Some (py_str (extract_payment_id req))])"
  using webhook_rows [of e req w] by (auto simp: select_by_payment_None)

lemma reachable_keys:
  "reachable w \<Longrightarrow>
   distinct (map mp_payment_id (ingressos (db w))) \<and> None \<notin> set (map mp_payment_id (ingressos (db w)))"
proof (induction rule: reachable.induct)
  case reachable_init
  show ?case by (simp add: empty_world_def init_db_def)
next
  case (reachable_step w e req)
  from webhook_keys [of e req w] show ?case
  proof
    assume same: "map mp_payment_id (ingressos (db (snd (webhook e req w)))) =
        map mp_payment_id (ingressos (db w))"
    show ?thesis using reachable_step.IH unfolding same by blast
  next
    assume new: "Some (py_str (extract_payment_id req)) \<notin> set (map mp_payment_id (ingressos (db w))) \<and>
      map mp_payment_id (ingressos (db (snd (webhook e req w)))) =
        map mp_payment_id (ingressos (db w)) @ [Some (py_str (extract_payment_id req))]"
    then have eq: "map mp_payment_id (ingressos (db (snd (webhook e req w)))) =
        map mp_payment_id (ingressos (db w)) @ [Some (py_str (extract_payment_id req))]" ..
    show ?thesis using reachable_step.IH new unfolding eq by simp
  qed
qed

lemma map_filter_distinct:
  "distinct (map f xs) \<Longrightarrow> distinct (List.map_filter f xs)"
  by (auto simp: List.map_filter_def distinct_map inj_on_def intro: option.expand)

lemma map_filter_length:
  "None \<notin> set (map f xs) \<Longrightarrow> length (List.map_filter f xs) = length xs"
  by (induction xs) (auto split: option.splits)

lemma webhook_replay_unchanged:
  assumes "select_by_payment (db w) (py_str (extract_payment_id req)) = Some row"
  shows "snd (webhook e req w) = w"
proof (cases "webhook_prepare e req w")
  case (Pair a w1)
  show ?thesis
  proof (cases a)
    case (Inl r)
    with Pair show ?thesis by (auto simp: webhook_def dest: webhook_prepare_Inl)
  next
    case (Inr p)
    with Pair obtain em where "issue_prepare e (extract_payment_id req) em w = (Inr p, w1)"
      by (auto dest: webhook_prepare_Inr)
    from issue_prepare_Inr [OF this] assms show ?thesis by simp
  qed
qed





subsection \<open>Sequence numbers and codes\<close>

text \<open>
  \<^verbatim>\<open>next_seq\<close> is above every sequence number of the table, and the decimal digits
  of a code, read back as a number, give its sequence number.
\<close>

lemma fold_max_Max: "fold max xs (x::int) = Max (set (x # xs))"
  by (rule Max.set_eq_fold [symmetric])

lemma next_seq_Max:
  "next_seq d = (if ingressos d = [] then 1 else Max (seq ` set (ingressos d)) + 1)"
proof (cases "ingressos d")
  case Nil
  then show ?thesis by (simp add: next_seq_def select_max_seq_def)
next
  case (Cons r rs)
  have "fold max (map seq rs) (seq r) = Max (set (seq r # map seq rs))"
    by (rule fold_max_Max)
  with Cons show ?thesis by (simp add: next_seq_def select_max_seq_def)
qed

lemma next_seq_greater: "r \<in> set (ingressos d) \<Longrightarrow> seq r < next_seq d"
proof -
  assume r: "r \<in> set (ingressos d)"
  then have "seq r \<le> Max (seq ` set (ingressos d))" by simp
  with r show ?thesis by (auto simp: next_seq_Max)
qed

lemma next_seq_positive:
  "\<forall>r \<in> set (ingressos d). 1 \<le> seq r \<Longrightarrow> 1 \<le> next_seq d"
proof (cases "ingressos d")
  case Nil
  then show ?thesis by (simp add: next_seq_Max)
next
  case (Cons r rs)
  assume "\<forall>r \<in> set (ingressos d). 1 \<le> seq r"
  with Cons have "1 \<le> seq r" by simp
  moreover from Cons have "seq r < next_seq d" by (simp add: next_seq_greater)
  ultimately show ?thesis by simp
qed

lemma of_char_digit_char: "d < 10 \<Longrightarrow> of_char (digit_char d) = (48 + d :: nat)"
proof -
  assume "d < 10"
  then have "d \<in> {0, 1, 2, 3, 4, 5, 6, 7, 8, 9}" by auto
  then show ?thesis by (auto simp: digit_char_def)
qed

lemma value_dec_nat:
  "foldl (\<lambda>a c. 10 * a + (of_char c - 48)) (0::nat) (dec_nat n) = n"
proof (induction n rule: dec_nat.induct)
  case (1 n)
  show ?case
  proof (cases "n < 10")
    case True
    then show ?thesis by (simp add: dec_nat.simps [of n] of_char_digit_char)
  next
    case False
    with 1 show ?thesis by (simp add: dec_nat.simps [of n] of_char_digit_char)
  qed
qed

lemma value_zeros:
  "foldl (\<lambda>a c. 10 * a + (of_char c - 48)) (0::nat) (replicate k CHR ''0'') = 0"
  by (induction k) simp_all

lemma value_zfill:
  "foldl (\<lambda>a c. 10 * a + (of_char c - 48)) (0::nat) (zfill k (dec_nat n)) = n"
  by (simp add: zfill_def value_zeros value_dec_nat)

lemma format_04d_inj:
  assumes "0 \<le> a" and "0 \<le> b" and "format_04d a = format_04d b"
  shows "a = b"
proof -
  from assms have "zfill 4 (dec_nat (nat a)) = zfill 4 (dec_nat (nat b))"
    by (simp add: format_04d_def)
  then have "foldl (\<lambda>a c. 10 * a + (of_char c - 48)) (0::nat) (zfill 4 (dec_nat (nat a))) =
             foldl (\<lambda>a c. 10 * a + (of_char c - 48)) (0::nat) (zfill 4 (dec_nat (nat b)))"
    by simp
  then have "nat a = nat b" by (simp only: value_zfill)
  with assms show ?thesis by simp
qed

lemma format_code_inj:
  "0 \<le> a \<Longrightarrow> 0 \<le> b \<Longrightarrow> format_code pfx a = format_code pfx b \<Longrightarrow> a = b"
  by (auto simp: format_code_def dest: format_04d_inj)

subsection \<open>Handled one after another under one prefix, no insert breaks uniqueness\<close>

text \<open>
  Every row written under the prefix carries the code of its sequence number, so the
  code of \<^verbatim>\<open>next_seq\<close> is new; and the address the handler resolves is never
  \<^verbatim>\<open>None\<close>. Hence no delivery of such a run ends in \<^verbatim>\<open>IntegrityError\<close>.
\<close>

lemma reachable_with_codes:
  "reachable_with pfx w \<Longrightarrow>
   \<forall>r \<in> set (ingressos (db w)). codigo r = format_code pfx (seq r) \<and> 1 \<le> seq r"
proof (induction rule: reachable_with.induct)
  case with_init
  show ?case by (simp add: empty_world_def init_db_def)
next
  case (with_step w e req)
  then have pos: "1 \<le> next_seq (db w)" by (simp add: next_seq_positive)
  from webhook_rows [of e req w] show ?case
  proof
    assume same: "ingressos (db (snd (webhook e req w))) = ingressos (db w)"
    show ?thesis using with_step.IH unfolding same .
  next
    assume "fst (webhook e req w) = OK \<and>
      select_by_payment (db w) (py_str (extract_payment_id req)) = None \<and>
      (\<exists>addr. ingressos (db (snd (webhook e req w))) = ingressos (db w) @
        [\<lparr>row_id = sqlite_sequence (db w) + 1, evento = ''Lual na Praia'',
          seq = next_seq (db w), codigo = format_code (PREFIX e) (next_seq (db w)),
          comprador_email = addr, status = ''pago'',
          mp_payment_id = Some (py_str (extract_payment_id req)), created_at = utcnow e\<rparr>])"
    then obtain r where eq: "ingressos (db (snd (webhook e req w))) = ingressos (db w) @ [r]"
      and r: "seq r = next_seq (db w)" "codigo r = format_code (PREFIX e) (next_seq (db w))"
      by auto
    show ?thesis using with_step.IH with_step.hyps r pos unfolding eq by simp
  qed
qed

lemma reachable_with_fresh_code:
  assumes "reachable_with pfx w"
  shows "format_code pfx (next_seq (db w)) \<notin> set (map codigo (ingressos (db w)))"
proof
  assume "format_code pfx (next_seq (db w)) \<in> set (map codigo (ingressos (db w)))"
  then obtain r where r: "r \<in> set (ingressos (db w))"
    and c: "codigo r = format_code pfx (next_seq (db w))" by auto
  from reachable_with_codes [OF assms] r
  have "codigo r = format_code pfx (seq r)" and "1 \<le> seq r" by auto
  moreover from r have "seq r < next_seq (db w)" by (rule next_seq_greater)
  ultimately have "seq r = next_seq (db w)" using c
    by (intro format_code_inj [of _ _ pfx]) auto
  with \<open>seq r < next_seq (db w)\<close> show False by simp
qed

lemma read_status_email_truthy: "read_status_email info = Inr (st, em) \<Longrightarrow> truthy em"
  by (auto simp: read_status_email_def ebind_def py_or_def sentinel_email_def
      split: sum.splits if_splits)

lemma bind_text_truthy: "truthy em \<Longrightarrow> bind_text em \<noteq> Inl IntegrityError"
  by (cases em) auto

lemma webhook_prepare_email:
  "webhook_prepare e req w = (Inr p, w') \<Longrightarrow> truthy (p_email p)"
  by (auto simp: webhook_prepare_def Let_def OK_def
      dest!: issue_prepare_Inr read_status_email_truthy
      split: option.splits if_splits sum.splits bool.splits prod.splits)

lemma py_get_error: "py_get v k d = Inl x \<Longrightarrow> x = AttributeError"
  by (cases v) auto

lemma read_status_email_error: "read_status_email info = Inl x \<Longrightarrow> x = AttributeError"
  by (auto simp: read_status_email_def ebind_def dest: py_get_error
      split: sum.splits if_splits)

lemma is_approved_error: "is_approved st = Inl x \<Longrightarrow> x = AttributeError"
  by (auto simp: is_approved_def split: if_splits pyval.splits)

lemma webhook_prepare_no_integrity:
  "webhook_prepare e req w = (Inl r, w') \<Longrightarrow> r \<noteq> Inl IntegrityError"
  by (auto simp: webhook_prepare_def Let_def OK_def issue_prepare_def issue_after_lookup_def
      dest: read_status_email_error is_approved_error
      split: option.splits if_splits sum.splits bool.splits prod.splits)

lemma webhook_sequential_no_integrity_error:
  assumes "reachable_with pfx w" and "PREFIX e = pfx"
  shows "fst (webhook e req w) \<noteq> Inl IntegrityError"
proof (cases "webhook_prepare e req w")
  case (Pair a w1)
  show ?thesis
  proof (cases a)
    case (Inl r)
    with Pair show ?thesis
      by (auto simp: webhook_def dest: webhook_prepare_no_integrity)
  next
    case (Inr p)
    with Pair obtain em where ip: "issue_prepare e (extract_payment_id req) em w = (Inr p, w1)"
      by (auto dest: webhook_prepare_Inr)
    note facts = issue_prepare_Inr [OF ip]
    from Pair Inr have "truthy (p_email p)" by (auto dest: webhook_prepare_email)
    then have b: "bind_text (p_email p) \<noteq> Inl IntegrityError" by (rule bind_text_truthy)
    from facts assms have fresh: "p_codigo p \<notin> set (map codigo (ingressos (db w1)))"
      using reachable_with_fresh_code [OF assms(1)] by simp
    have "insert_ingresso (db w1) (p_seq p) (p_codigo p) (p_email p) (p_payment p) (p_now p)
        \<noteq> Inl IntegrityError"
      using b fresh by (auto simp: insert_ingresso_def split: sum.splits)
    with Pair Inr show ?thesis
      by (auto simp: webhook_def webhook_commit_def OK_def split: sum.splits)
  qed
qed

subsection \<open>Evaluation at the concrete deliveries\<close>

lemma replicate_numeral: "replicate (numeral k) x = x # replicate (pred_numeral k) x"
  by (simp add: numeral_eq_Suc)

lemma format_code_1: "format_code ''LUAL'' 1 = ''LUAL0001''"
  by (simp add: format_code_def format_04d_def zfill_def dec_nat.simps digit_char_def
      replicate_numeral)

lemma format_code_23: "format_code ''LUAL'' 23 = ''LUAL0023''"
  by (simp add: format_code_def format_04d_def zfill_def dec_nat.simps digit_char_def
      replicate_numeral)

lemma format_code_10000: "format_code ''LUAL'' 10000 = ''LUAL10000''"
  by (simp add: format_code_def format_04d_def zfill_def dec_nat.simps digit_char_def)

lemma str_int_23: "str_int 23 = ''23''"
  by (simp add: str_int_def dec_nat.simps digit_char_def)


lemma py_str_simps:
  "py_str (PyStr s) = s"
  "py_str (PyInt i) = str_int i"
  by (simp_all add: py_str_def)

lemma extract_payment_notification: "extract_payment_id (payment_notification i) = i"
  by (simp add: extract_payment_id_def payment_notification_def get_payload_def py_or_def
      payment_id_try_def type_branch_def py_and_def ebind_def)

lemma lower_approved: "py_lower ''approved'' = ''approved''"
  by (simp add: py_lower_def lower_char_def)

lemma env_answering_fields:
  "PREFIX (env_answering a) = ''LUAL''"
  "MP_SDK_AVAILABLE (env_answering a)"
  "PIL_AVAILABLE (env_answering a)"
  "payment_get (env_answering a) i = Some a"
  "utcnow (env_answering a) = ''2025-09-20T12:00:00''"
  "makedirs_ok (env_answering a)"
  "base_exists (env_answering a)"
  "\<not> stamp_ok (env_answering a) c"
  "\<not> mail_ok (env_answering a) m"
  "\<not> stale_collected (env_answering a)"
  by (simp_all add: env_answering_def default_PREFIX_def)

lemma fetch_env_answering:
  "fetch_payment_info (env_answering (PyDict kvs)) i =
     Some (case map_of kvs ''response'' of None \<Rightarrow> PyDict [] | Some v \<Rightarrow> v)"
  by (simp add: fetch_payment_info_def env_answering_def)

lemma approved_stages:
  "fetch_payment_info env_approved i =
     Some (PyDict [(''status'', PyStr ''approved''), (''payer'', PyDict [(''email'', PyStr ''a@b.com'')])])"
  "read_status_email
     (PyDict [(''status'', PyStr ''approved''), (''payer'', PyDict [(''email'', PyStr ''a@b.com'')])]) =
     Inr (PyStr ''approved'', PyStr ''a@b.com'')"
  "is_approved (PyStr ''approved'') = Inr True"
  by (simp_all add: env_approved_def fetch_env_answering payment_found_def
      read_status_email_def ebind_def is_approved_def lower_approved)

lemma prepare_first:
  "webhook_prepare env_approved (payment_notification (PyStr (c # cs))) empty_world =
     (Inr (first_pending (c # cs)), empty_world)"
  by (simp add: webhook_prepare_def extract_payment_notification env_approved_def
      fetch_env_answering payment_found_def read_status_email_def ebind_def is_approved_def
      lower_approved issue_prepare_def issue_after_lookup_def select_by_payment_def
      empty_world_def init_db_def next_seq_def select_max_seq_def Let_def first_pending_def
      py_str_def env_answering_fields format_code_1)

lemma prepare_first_any:
  "truthy i \<Longrightarrow>
   webhook_prepare env_approved (payment_notification i) empty_world =
     (Inr (first_pending (py_str i)), empty_world)"
  by (simp add: webhook_prepare_def extract_payment_notification env_approved_def
      fetch_env_answering payment_found_def read_status_email_def ebind_def is_approved_def
      lower_approved issue_prepare_def issue_after_lookup_def select_by_payment_def
      empty_world_def init_db_def next_seq_def select_max_seq_def Let_def first_pending_def
      env_answering_fields format_code_1)

lemma commit_first:
  "webhook_commit env_approved (first_pending k) empty_world = (OK, issued_world k)"
  by (simp add: webhook_commit_def busy_def first_pending_def empty_world_def init_db_def
      insert_ingresso_def fits_int64_def issued_world_def first_ticket_def build_message_def
      env_approved_def env_answering_fields)

lemma commit_second:
  "webhook_commit env_approved (first_pending k') (issued_world k) =
     (Inl IntegrityError, (issued_world k)\<lparr>write_locked := True\<rparr>)"
  by (simp add: webhook_commit_def busy_def first_pending_def issued_world_def
      insert_ingresso_def fits_int64_def first_ticket_def)

lemma webhook_first:
  "truthy i \<Longrightarrow>
   webhook env_approved (payment_notification i) empty_world = (OK, issued_world (py_str i))"
  by (simp add: webhook_def prepare_first_any commit_first)

lemma select_issued: "select_by_payment (db (issued_world k)) k = Some (first_ticket k)"
  by (simp add: select_by_payment_def issued_world_def first_ticket_def)

subsection \<open>The second ticket, the write lock, and the order of row and message\<close>

lemma format_code_2: "format_code ''LUAL'' 2 = ''LUAL0002''"
  by (simp add: format_code_def format_04d_def zfill_def dec_nat.simps digit_char_def
      replicate_numeral)

lemma next_seq_issued: "next_seq (db (issued_world k)) = 2"
  by (simp add: next_seq_def select_max_seq_def issued_world_def first_ticket_def)

lemma after_lookup_second:
  "issue_after_lookup env_approved i (PyStr ''a@b.com'') ((issued_world k)\<lparr>write_locked := b\<rparr>) =
     (Inr (second_pending (py_str i)), (issued_world k)\<lparr>write_locked := b\<rparr>)"
  by (simp add: issue_after_lookup_def Let_def next_seq_issued env_approved_def
      env_answering_fields format_code_2 second_pending_def)

lemma select_issued_other:
  "k' \<noteq> k \<Longrightarrow> select_by_payment (db (issued_world k)) k' = None"
  by (simp add: select_by_payment_def issued_world_def first_ticket_def)

lemma prepare_second:
  assumes "truthy i" and "py_str i \<noteq> k"
  shows "webhook_prepare env_approved (payment_notification i) ((issued_world k)\<lparr>write_locked := b\<rparr>) =
     (Inr (second_pending (py_str i)), (issued_world k)\<lparr>write_locked := b\<rparr>)"
  using assms
  by (simp add: webhook_prepare_def extract_payment_notification approved_stages
      issue_prepare_def select_issued_other after_lookup_second Let_def)
     (simp add: env_approved_def env_answering_fields)

lemma commit_after_first:
  "webhook_commit env_approved (second_pending k2) (issued_world k1) =
     (OK, two_issued_world k1 k2)"
  by (simp add: webhook_commit_def busy_def second_pending_def issued_world_def
      insert_ingresso_def fits_int64_def first_ticket_def second_ticket_def
      two_issued_world_def build_message_def env_approved_def env_answering_fields)

lemma commit_locked:
  "webhook_commit env_approved (second_pending k2) ((issued_world k1)\<lparr>write_locked := True\<rparr>) =
     (Inl OperationalError, (issued_world k1)\<lparr>write_locked := True\<rparr>)"
  by (simp add: webhook_commit_def busy_def second_pending_def issued_world_def
      insert_ingresso_def fits_int64_def first_ticket_def env_approved_def
      env_answering_fields)

lemma webhook_second:
  assumes "truthy i" and "py_str i \<noteq> k"
  shows "webhook env_approved (payment_notification i) (issued_world k) =
     (OK, two_issued_world k (py_str i))"
  using prepare_second [OF assms, of False] commit_after_first [of "py_str i" k]
  by (simp add: webhook_def issued_world_def)

lemma webhook_locked:
  assumes "truthy i" and "py_str i \<noteq> k"
  shows "webhook env_approved (payment_notification i) ((issued_world k)\<lparr>write_locked := True\<rparr>) =
     (Inl OperationalError, (issued_world k)\<lparr>write_locked := True\<rparr>)"
  using prepare_second [OF assms, of True] commit_locked [of "py_str i" k]
  by (simp add: webhook_def)




lemma webhook_lock_only_by_integrity:
  assumes "write_locked (snd (webhook e req w))"
  shows "write_locked w \<or> fst (webhook e req w) = Inl IntegrityError"
proof (cases "webhook_prepare e req w")
  case (Pair a w1)
  show ?thesis
  proof (cases a)
    case (Inl r)
    with Pair assms show ?thesis by (auto simp: webhook_def dest: webhook_prepare_Inl)
  next
    case (Inr p)
    with Pair obtain em where ip: "issue_prepare e (extract_payment_id req) em w = (Inr p, w1)"
      by (auto dest: webhook_prepare_Inr)
    note facts = issue_prepare_Inr [OF ip]
    from Pair Inr have c: "webhook e req w = webhook_commit e p w1" by (simp add: webhook_def)
    with assms facts show ?thesis
      by (auto simp: webhook_commit_def split: sum.splits if_splits)
  qed
qed

lemma reachable_with_unlocked: "reachable_with pfx w \<Longrightarrow> \<not> write_locked w"
proof (induction rule: reachable_with.induct)
  case with_init
  show ?case by (simp add: empty_world_def)
next
  case (with_step w e req)
  with webhook_lock_only_by_integrity [of e req w]
    webhook_sequential_no_integrity_error [of pfx w e req]
  show ?case by auto
qed

lemma insert_ingresso_any_key:
  "(\<exists>d'. insert_ingresso d sq code em k now = Inr d') \<longleftrightarrow>
   (\<exists>d'. insert_ingresso d sq code em k' now = Inr d')"
  by (auto simp: insert_ingresso_def split: sum.splits)





section \<open>The claims\<close>

text \<open>
  \<^bold>\<open>C1\<close> (every \<^verbatim>\<open>POST /webhook\<close> is answered 200 OK; a uniqueness violation
  raised by the insert is treated as already handled and is not surfaced). The code at
  the input of the specification's own sequence race: two deliveries for two different
  approved payments both read the empty table, so both hold sequence number 1 and the
  code \<^verbatim>\<open>LUAL0001\<close>. The first \<^verbatim>\<open>INSERT\<close> succeeds; the second breaks the
  uniqueness of \<^verbatim>\<open>codigo\<close>, the exception leaves the view function, and the
  answer is 500. The handler that failed has left its connection open with the write
  lock, so the next approved delivery, for a third payment, is answered 500 as well for
  as long as that connection lives. (Handled one after another under one prefix, no
  \<^verbatim>\<open>INSERT\<close> breaks the constraint, as shown above; the violation needs two
  deliveries that overlap.)
\<close>

theorem webhook_race_surfaces:
  "webhook_prepare env_approved (payment_notification (PyStr ''111'')) empty_world =
     (Inr (first_pending ''111''), empty_world) \<and>
   webhook_prepare env_approved (payment_notification (PyStr ''222'')) empty_world =
     (Inr (first_pending ''222''), empty_world) \<and>
   webhook_commit env_approved (first_pending ''111'') empty_world = (OK, issued_world ''111'') \<and>
   webhook_commit env_approved (first_pending ''222'') (issued_world ''111'') =
     (Inl IntegrityError, (issued_world ''111'')\<lparr>write_locked := True\<rparr>) \<and>
   http_status (Inl IntegrityError) = 500 \<and>
   webhook env_approved (payment_notification (PyStr ''333''))
       ((issued_world ''111'')\<lparr>write_locked := True\<rparr>) =
     (Inl OperationalError, (issued_world ''111'')\<lparr>write_locked := True\<rparr>) \<and>
   http_status (Inl OperationalError) = 500"
  by (simp only: prepare_first commit_first commit_second)
     (simp add: http_status_def webhook_locked py_str_simps)

text \<open>
  \<^bold>\<open>C2\<close> (the payment reference, when not null, is unique across the rows of every
  reachable store, because the insert fails when the code or the payment reference is
  already there). What holds on the code: in every state reached from the empty table
  by deliveries handled one after another, every row has a payment reference and the
  references are pairwise distinct; and the insert never looks at the payment
  reference, so whether it succeeds is the same for every reference it is given.
\<close>

theorem payment_refs_unique:
  "reachable w \<Longrightarrow>
     distinct (payment_refs (db w)) \<and>
     length (payment_refs (db w)) = length (ingressos (db w)) \<and>
     ((\<exists>d'. insert_ingresso d sq code em k now = Inr d') \<longleftrightarrow>
      (\<exists>d'. insert_ingresso d sq code em k' now = Inr d'))"
  using reachable_keys [of w] insert_ingresso_any_key [of d sq code em k now k']
  by (simp add: payment_refs_def map_filter_distinct map_filter_length)

theorem payment_refs_unique_witness:
  "reachable (two_issued_world ''999'' ''1000'') \<and>
   payment_refs (db (two_issued_world ''999'' ''1000'')) = [''999'', ''1000''] \<and>
   distinct (payment_refs (db (two_issued_world ''999'' ''1000''))) \<and>
   length (payment_refs (db (two_issued_world ''999'' ''1000''))) =
     length (ingressos (db (two_issued_world ''999'' ''1000'')))"
proof -
  have "reachable (snd (webhook env_approved (payment_notification (PyStr ''999'')) empty_world))"
    by (rule reachable_step [OF reachable_init])
  then have "reachable (issued_world ''999'')"
    by (simp add: webhook_first py_str_simps)
  then have "reachable (snd (webhook env_approved (payment_notification (PyStr ''1000''))
      (issued_world ''999'')))"
    by (rule reachable_step)
  then have r: "reachable (two_issued_world ''999'' ''1000'')"
    by (simp add: webhook_second py_str_simps)
  have p: "payment_refs (db (two_issued_world ''999'' ''1000'')) = [''999'', ''1000'']"
    by (simp add: payment_refs_def two_issued_world_def first_ticket_def second_ticket_def)
  from payment_refs_unique [OF r] r p show ?thesis by simp
qed

text \<open>
  The insert as the claim words it fails: a row whose payment reference is already in
  the table, under a new code, is accepted, and the references are no longer distinct.
\<close>

theorem insert_accepts_duplicate_payment:
  "insert_ingresso (db (issued_world ''999'')) 2 ''LUAL0002'' (PyStr ''c@d.com'') ''999''
     ''2025-09-21T08:00:00'' = Inr two_tickets_db \<and>
   payment_refs two_tickets_db = [''999'', ''999''] \<and>
   \<not> distinct (payment_refs two_tickets_db)"
  by (simp add: insert_ingresso_def fits_int64_def issued_world_def first_ticket_def
      two_tickets_db_def payment_refs_def)




text \<open>
  \<^bold>\<open>C4\<close> (a delivery for a payment id that already has a row adds no row, leaves
  the store as it is and answers success). Whatever the gateway says, nothing changes;
  and when the handler gets as far as the lookup by payment reference, which is when
  the gateway says approved again, the answer is OK.
\<close>

theorem webhook_replay_is_noop:
  assumes "select_by_payment (db w) (py_str (extract_payment_id req)) = Some row"
  shows "snd (webhook e req w) = w \<and>
         (truthy (extract_payment_id req) \<and> MP_SDK_AVAILABLE e \<and>
          fetch_payment_info e (extract_payment_id req) = Some info \<and>
          read_status_email info = Inr (st, em) \<and> is_approved st = Inr True
          \<longrightarrow> webhook e req w = (OK, w))"
  using assms by (auto simp: webhook_replay_unchanged intro: webhook_found)

theorem webhook_replay_is_noop_witness:
  "select_by_payment (db (issued_world ''999'')) ''999'' = Some (first_ticket ''999'') \<and>
   webhook env_approved (payment_notification (PyStr ''999'')) (issued_world ''999'') =
     (OK, issued_world ''999'')"
proof -
  have h: "select_by_payment (db (issued_world ''999''))
      (py_str (extract_payment_id (payment_notification (PyStr ''999'')))) = Some (first_ticket ''999'')"
    by (simp add: extract_payment_notification py_str_simps select_issued)
  have t: "truthy (extract_payment_id (payment_notification (PyStr ''999'')))"
    by (simp add: extract_payment_notification)
  have s: "MP_SDK_AVAILABLE env_approved"
    by (simp add: env_approved_def env_answering_fields)
  from webhook_replay_is_noop [OF h, of env_approved _ "PyStr ''approved''" "PyStr ''a@b.com''"]
    t s approved_stages
  show ?thesis by (simp add: select_issued)
qed

text \<open>
  \<^bold>\<open>C5\<close> (the payment id is resolved by the precedence type and \<open>data.id\<close>, topic
  and \<open>id\<close>, \<open>data.id\<close> alone, query parameters; with no match the answer is success
  and nothing changes). What holds on the code: when reading the body raises no
  exception, the id the handler goes on with is the one of the precedence, a falsy id
  counting as none; when reading raises, no id is resolved, whatever the later rules
  would give; reading does not raise when the body is an object whose \<open>data\<close>, if
  present, is an object; and a delivery with no usable id is answered OK and changes
  nothing.
\<close>

theorem payment_id_precedence:
  "(payment_id_try (get_payload req) (args req) = Inr v \<longrightarrow>
      usable (Some (extract_payment_id req)) =
      usable (spec_payment_id (get_payload req) (args req))) \<and>
   (payment_id_try (get_payload req) (args req) = Inl x \<longrightarrow> extract_payment_id req = PyNone) \<and>
   (is_dict (get_payload req) \<and>
    (\<forall>d. member (get_payload req) ''data'' = Some d \<longrightarrow> is_dict d) \<longrightarrow>
      (\<exists>u. payment_id_try (get_payload req) (args req) = Inr u)) \<and>
   (\<not> truthy (extract_payment_id req) \<longrightarrow> webhook e req w = (OK, w))"
  using id_by_precedence [of "get_payload req" "args req" v]
    id_well_shaped [of "get_payload req" "args req"]
  by (auto simp: extract_payment_id_def webhook_no_id)

theorem payment_id_precedence_witness:
  "payment_id_try (get_payload (payment_notification (PyStr ''999''))) (args (payment_notification (PyStr ''999''))) =
     Inr (PyStr ''999'') \<and>
   spec_payment_id (get_payload (payment_notification (PyStr ''999''))) (args (payment_notification (PyStr ''999''))) =
     Some (PyStr ''999'') \<and>
   usable (Some (extract_payment_id (payment_notification (PyStr ''999'')))) = Some (PyStr ''999'') \<and>
   payment_id_try (get_payload null_data_request) (args null_data_request) = Inl TypeError \<and>
   extract_payment_id null_data_request = PyNone \<and>
   is_dict (get_payload empty_request) \<and>
   member (get_payload empty_request) ''data'' = None \<and>
   payment_id_try (get_payload empty_request) (args empty_request) = Inr PyNone \<and>
   \<not> truthy (extract_payment_id empty_request) \<and>
   webhook env_approved empty_request empty_world = (OK, empty_world)"
proof -
  let ?r = "payment_notification (PyStr ''999'')"
  have a: "payment_id_try (get_payload ?r) (args ?r) = Inr (PyStr ''999'')"
    by (simp add: payment_notification_def get_payload_def py_or_def payment_id_try_def
        type_branch_def py_and_def ebind_def)
  have b: "payment_id_try (get_payload null_data_request) (args null_data_request) = Inl TypeError"
    by (simp add: null_data_request_def get_payload_def py_or_def payment_id_try_def
        type_branch_def py_and_def ebind_def)
  have c: "is_dict (get_payload empty_request)"
    "member (get_payload empty_request) ''data'' = None"
    by (simp_all add: empty_request_def get_payload_def py_or_def)
  have d: "payment_id_try (get_payload empty_request) (args empty_request) = Inr PyNone"
    by (simp add: empty_request_def get_payload_def py_or_def payment_id_try_def
        type_branch_def topic_branch_def data_branch_def args_branch_def py_and_def ebind_def)
  then have n: "\<not> truthy (extract_payment_id empty_request)"
    by (simp add: extract_payment_id_def)
  have s: "spec_payment_id (get_payload ?r) (args ?r) = Some (PyStr ''999'')"
    by (simp add: payment_notification_def get_payload_def py_or_def spec_payment_id_def
        data_id_def)
  from payment_id_precedence [of ?r "PyStr ''999''" TypeError env_approved empty_world]
    payment_id_precedence [of null_data_request PyNone TypeError env_approved empty_world]
    payment_id_precedence [of empty_request PyNone TypeError env_approved empty_world]
    a b c d n s
  show ?thesis by (simp add: usable_def)
qed

text \<open>
  The precedence as the claim words it fails when \<open>type\<close> is \<^verbatim>\<open>payment\<close> and
  \<open>data\<close> is \<^verbatim>\<open>null\<close>: the first rule does not match, the second gives the id 7,
  and the code resolves no id, because the membership test on \<^verbatim>\<open>None\<close> raises.
\<close>

theorem null_data_breaks_precedence:
  "extract_payment_id null_data_request = PyNone \<and>
   spec_payment_id (get_payload null_data_request) (args null_data_request) = Some (PyStr ''7'') \<and>
   usable (Some (extract_payment_id null_data_request)) \<noteq>
   usable (spec_payment_id (get_payload null_data_request) (args null_data_request))"
  by (simp add: extract_payment_id_def null_data_request_def get_payload_def py_or_def
      payment_id_try_def type_branch_def py_and_def ebind_def spec_payment_id_def data_id_def
      usable_def)

text \<open>
  \<^bold>\<open>C6\<close> (when the gateway lookup fails or the status is anything but approved, the
  handler does nothing further and answers success). The code at a lookup that answers
  with the provider's error document for an unknown payment, whose \<^verbatim>\<open>status\<close> is the
  number 404: line 227 calls \<^verbatim>\<open>lower\<close> on the number, the exception leaves the
  view function, and the answer is 500, in every state of the store.
\<close>

theorem webhook_numeric_status_raises:
  "webhook (env_answering payment_not_found) (payment_notification (PyStr ''123456'')) w =
     (Inl AttributeError, w) \<and> http_status (Inl AttributeError) = 500"
  by (simp add: webhook_def webhook_prepare_def extract_payment_notification
      fetch_env_answering payment_not_found_def read_status_email_def ebind_def is_approved_def
      http_status_def py_or_def Let_def env_answering_fields)




text \<open>
  \<^bold>\<open>C8\<close> (\<^verbatim>\<open>format_code\<close> is the prefix, \<^verbatim>\<open>LUAL\<close> by default, followed by the
  sequence number padded with zeros to four digits and never cut). The three values of
  the specification, and for every sequence number from 0 on: the prefix, then as many
  zeros as the decimal digits fall short of four, then all the digits.
\<close>

theorem format_code_pads_to_four:
  "format_code default_PREFIX 1 = ''LUAL0001'' \<and>
   format_code default_PREFIX 23 = ''LUAL0023'' \<and>
   format_code default_PREFIX 10000 = ''LUAL10000'' \<and>
   (0 \<le> sq \<longrightarrow>
      format_code pfx sq = pfx @ replicate (4 - length (str_int sq)) CHR ''0'' @ str_int sq)"
  by (simp add: default_PREFIX_def format_code_1 format_code_23 format_code_10000)
     (simp add: format_code_def format_04d_def zfill_def str_int_def)

theorem format_code_pads_to_four_witness:
  "(0::int) \<le> 23 \<and> str_int 23 = ''23'' \<and>
   format_code ''LUAL'' 23 = ''LUAL'' @ replicate (4 - length ''23'') CHR ''0'' @ ''23''"
  using format_code_pads_to_four [of 23 "''LUAL''"] by (simp add: str_int_23)

text \<open>
  \<^bold>\<open>C9\<close> (\<^verbatim>\<open>next_seq\<close> is one more than the largest \<open>seq\<close> of the table, and 1
  on an empty table; so a ticket's \<open>seq\<close> is the largest one plus one when it is
  issued). The second part for a delivery handled with nothing in between: the row it
  appends carries \<^verbatim>\<open>next_seq\<close> of the table it found.
\<close>

theorem next_seq_is_max_plus_one:
  "next_seq d = (if ingressos d = [] then 1 else Max (seq ` set (ingressos d)) + 1) \<and>
   (ingressos (db (snd (webhook e req w))) = ingressos (db w) @ [row] \<longrightarrow>
      seq row = next_seq (db w))"
  using webhook_rows [of e req w] by (auto simp: next_seq_Max)

theorem next_seq_is_max_plus_one_witness:
  "next_seq (db empty_world) = 1 \<and> next_seq (db (issued_world ''999'')) = 2 \<and>
   ingressos (db (snd (webhook env_approved (payment_notification (PyStr ''999'')) empty_world))) =
     ingressos (db empty_world) @ [first_ticket ''999''] \<and>
   seq (first_ticket ''999'') = next_seq (db empty_world)"
proof -
  have h: "ingressos (db (snd (webhook env_approved (payment_notification (PyStr ''999'')) empty_world))) =
     ingressos (db empty_world) @ [first_ticket ''999'']"
    by (simp add: webhook_first py_str_simps)
       (simp add: issued_world_def empty_world_def init_db_def)
  from next_seq_is_max_plus_one [of "db empty_world" env_approved
      "payment_notification (PyStr ''999'')" empty_world "first_ticket ''999''"]
    next_seq_is_max_plus_one [of "db (issued_world ''999'')" env_approved
      "payment_notification (PyStr ''999'')" empty_world "first_ticket ''999''"] h
  show ?thesis
    by (simp add: empty_world_def init_db_def issued_world_def first_ticket_def)
qed




end
